theory Spec2Isabelle
  imports Main "HOL-Library.Sublist"
begin

section \<open>Values and the runtime the service talks to\<close>

text \<open>
  The service (\<^verbatim>\<open>src/services/geminiService.js\<close>) is a class whose methods call three
  collaborators: the global \<^verbatim>\<open>fetch\<close>, the model client \<^verbatim>\<open>this.ai.models\<close> and the
  Node modules \<^verbatim>\<open>fs\<close>, \<^verbatim>\<open>path\<close> and \<^verbatim>\<open>Buffer\<close>. They are parameters of the model
  (the record \<open>runtime\<close>); everything the repository's own code does with their answers
  is written out. A thrown \<^verbatim>\<open>Error\<close> is the left summand of a sum type.
\<close>

type_synonym bytes = "nat list"

datatype error = Error (error_message: string)

text \<open>JavaScript truthiness of a string that may be \<^verbatim>\<open>undefined\<close> or \<^verbatim>\<open>null\<close>:
  only a non-empty string is truthy.\<close>

definition truthy :: "string option \<Rightarrow> bool" where
  "truthy v = (case v of None \<Rightarrow> False | Some s \<Rightarrow> s \<noteq> [])"

text \<open>\<^verbatim>\<open>a || b\<close> on strings.\<close>

definition or_else :: "string option \<Rightarrow> string \<Rightarrow> string" where
  "or_else v d = (case v of None \<Rightarrow> d | Some s \<Rightarrow> if s \<noteq> [] then s else d)"

record inlineData =
  data :: string
  mimeType :: string

text \<open>An uploaded \<^verbatim>\<open>File\<close> object: its bytes (\<^verbatim>\<open>arrayBuffer()\<close>) and its \<^verbatim>\<open>type\<close>.\<close>

record file_object =
  file_bytes :: bytes
  file_type :: string

text \<open>The \<^verbatim>\<open>File|string\<close> argument: \<^verbatim>\<open>typeof x === 'string'\<close> tells the two apart.\<close>

datatype media = Url string | FileObject file_object

text \<open>What \<^verbatim>\<open>await fetch(url)\<close> gives: a rejection, or a response.\<close>

record http_reply =
  ok :: bool
  statusText :: string
  content_type :: "string option"
  arrayBuffer :: "error + bytes"

datatype fetch_outcome = Rejects error | Resolves http_reply

text \<open>Parts, turns and the request sent to the model.\<close>

datatype req_part = Text "string option" | InlineData inlineData

record turn =
  role :: string
  parts :: "req_part list"

record gen_config =
  thinkingBudget :: "int option"
  tools :: "string list option"
  responseModalities :: "string list option"

record gen_request =
  g_model :: string
  g_config :: gen_config
  g_contents :: "turn list"

text \<open>What the model answers: a response object (non-streaming) or chunks (streaming).
  \<open>response_text\<close> and \<open>chunk_text\<close> are the SDK's \<^verbatim>\<open>.text\<close> getters.\<close>

datatype resp_part = Part (part_inlineData: "inlineData option") (part_text: "string option")

datatype content = Content (content_parts: "resp_part list option")

datatype candidate = Candidate (candidate_content: "content option")

record gen_response =
  candidates :: "candidate list option"
  response_text :: "string option"

record chunk =
  chunk_candidates :: "candidate list option"
  chunk_text :: "string option"

record runtime =
  fetch :: "string \<Rightarrow> fetch_outcome"
  generateContent :: "gen_request \<Rightarrow> error + gen_response"
  generateContentStream :: "gen_request \<Rightarrow> error + (chunk list \<times> error option)"
  toBase64 :: "bytes \<Rightarrow> string"
  fromBase64 :: "string \<Rightarrow> bytes"
  bufferFromUndefined :: error
  readOfUndefined :: "string \<Rightarrow> error"
  dateNow :: "nat \<Rightarrow> nat"
  cwd :: string
  path_join :: "string list \<Rightarrow> string"
  writeFileSync :: "string \<Rightarrow> error option"

section \<open>Media Source Resolver\<close>

text \<open>\<^verbatim>\<open>fetchFileFromUrl\<close> (geminiService.js 40-58). Every throw inside the \<^verbatim>\<open>try\<close> is
  caught and rethrown with the prefix \<^verbatim>\<open>Error fetching file from URL: \<close>.\<close>

definition fetchFileFromUrl :: "runtime \<Rightarrow> string \<Rightarrow> error + inlineData" where
  "fetchFileFromUrl env fileUrl =
     (case fetch env fileUrl of
        Rejects e \<Rightarrow> Inl (Error (''Error fetching file from URL: '' @ error_message e))
      | Resolves response \<Rightarrow>
          if \<not> ok response
          then Inl (Error (''Error fetching file from URL: '' @
                           (''Failed to fetch file: '' @ statusText response)))
          else (case arrayBuffer response of
                  Inl e \<Rightarrow> Inl (Error (''Error fetching file from URL: '' @ error_message e))
                | Inr buf \<Rightarrow>
                    Inr \<lparr>data = toBase64 env buf,
                         mimeType = or_else (content_type response) ''application/octet-stream''\<rparr>))"

text \<open>The \<^verbatim>\<open>if (typeof image === 'string') ... else ...\<close> block that every method with a
  media argument repeats (geminiService.js 104-114, 302-312, 449-459, 534-544, 619-629).\<close>

definition resolveMedia :: "runtime \<Rightarrow> media \<Rightarrow> error + inlineData" where
  "resolveMedia env m =
     (case m of
        Url u \<Rightarrow> fetchFileFromUrl env u
      | FileObject f \<Rightarrow> Inr \<lparr>data = toBase64 env (file_bytes f), mimeType = file_type f\<rparr>)"

section \<open>Process state\<close>

text \<open>
  What a request can change: the session registry \<^verbatim>\<open>this.sessions\<close> (created empty by the
  constructor, geminiService.js 26), the files under the output directory, the log of calls
  made to the model client, and how often the clock has been read.
\<close>

datatype model_call = NonStreaming gen_request | Streaming gen_request

record world =
  sessions :: "string \<rightharpoonup> string"
  files :: "string \<rightharpoonup> bytes"
  dispatched :: "model_call list"
  clockReads :: nat

definition dispatch :: "model_call \<Rightarrow> world \<Rightarrow> world" where
  "dispatch c w = w\<lparr>dispatched := dispatched w @ [c]\<rparr>"

section \<open>Output Materializer\<close>

text \<open>Decimal rendering of a number in a template literal.\<close>

fun show_nat :: "nat \<Rightarrow> string" where
  "show_nat n =
     (if n < 10 then [''0123456789'' ! n]
      else show_nat (n div 10) @ [''0123456789'' ! (n mod 10)])"

declare show_nat.simps [simp del]

text \<open>\<^verbatim>\<open>s.split(c)\<close> for a one-character separator.\<close>

fun split_on :: "char \<Rightarrow> string \<Rightarrow> string list" where
  "split_on c [] = [[]]"
| "split_on c (x # xs) =
     (if x = c then [] # split_on c xs
      else (case split_on c xs of
              [] \<Rightarrow> [[x]]
            | h # t \<Rightarrow> (x # h) # t))"

text \<open>\<^verbatim>\<open>mimeType.split('/')[1] || 'png'\<close> (geminiService.js 178).\<close>

definition extension_of :: "string \<Rightarrow> string" where
  "extension_of mime =
     (case split_on CHR ''/'' mime of
        _ # e # _ \<Rightarrow> if e \<noteq> [] then e else ''png''
      | _ \<Rightarrow> ''png'')"

text \<open>\<^verbatim>\<open>this.imagesDir\<close> (geminiService.js 29).\<close>

definition imagesDir :: "runtime \<Rightarrow> string" where
  "imagesDir env = path_join env [cwd env, ''public'', ''images'']"

text \<open>\<^verbatim>\<open>saveImageToFile\<close> (geminiService.js 174-191).\<close>

definition saveImageToFile ::
  "runtime \<Rightarrow> world \<Rightarrow> string \<Rightarrow> string \<Rightarrow> (error + string) \<times> world" where
  "saveImageToFile env w base64Data mime =
     (let timestamp = dateNow env (clockReads w);
          w1 = w\<lparr>clockReads := Suc (clockReads w)\<rparr>;
          extension = extension_of mime;
          filename = ''generated_'' @ show_nat timestamp @ ''.'' @ extension;
          filepath = path_join env [imagesDir env, filename];
          buffer = fromBase64 env base64Data
      in case writeFileSync env filepath of
           Some e \<Rightarrow> (Inl (Error (''Failed to save image: '' @ error_message e)), w1)
         | None \<Rightarrow> (Inr (''/images/'' @ filename), w1\<lparr>files := (files w1)(filepath \<mapsto> buffer)\<rparr>))"

section \<open>Response Aggregator\<close>

text \<open>
  The three shapes of an entry of \<^verbatim>\<open>images\<close>: \<^verbatim>\<open>{url, mimeType}\<close>,
  \<^verbatim>\<open>{data, mimeType}\<close> and \<^verbatim>\<open>{buffer, mimeType, data}\<close>. Reading a property that the
  object does not have gives \<^verbatim>\<open>undefined\<close>, here \<open>None\<close>.
\<close>

datatype image_result =
    FileImage string string
  | InlineImage string string
  | BufferImage bytes string string

fun image_mimeType :: "image_result \<Rightarrow> string" where
  "image_mimeType (FileImage u m) = m"
| "image_mimeType (InlineImage d m) = m"
| "image_mimeType (BufferImage b m d) = m"

fun image_data :: "image_result \<Rightarrow> string option" where
  "image_data (FileImage u m) = None"
| "image_data (InlineImage d m) = Some d"
| "image_data (BufferImage b m d) = Some d"

fun image_buffer :: "image_result \<Rightarrow> bytes option" where
  "image_buffer (FileImage u m) = None"
| "image_buffer (InlineImage d m) = None"
| "image_buffer (BufferImage b m d) = Some b"

fun is_file_image :: "image_result \<Rightarrow> bool" where
  "is_file_image (FileImage u m) = True"
| "is_file_image (InlineImage d m) = False"
| "is_file_image (BufferImage b m d) = False"

record artifact =
  images :: "image_result list"
  a_text :: string
  totalImages :: nat
  a_type :: "string option"

text \<open>The guard \<^verbatim>\<open>response.candidates && response.candidates[0] &&
  response.candidates[0].content && response.candidates[0].content.parts\<close>: an array is
  truthy even when empty, a missing element or property is not.\<close>

definition first_candidate_parts :: "candidate list option \<Rightarrow> resp_part list option" where
  "first_candidate_parts cs =
     (case cs of
        None \<Rightarrow> None
      | Some [] \<Rightarrow> None
      | Some (c # _) \<Rightarrow>
          (case candidate_content c of
             None \<Rightarrow> None
           | Some ct \<Rightarrow> content_parts ct))"

text \<open>The loop \<^verbatim>\<open>for (const part of parts)\<close> of the buffer presets
  (geminiService.js 490-504, 575-589, 660-674).\<close>

fun bufferLoop ::
  "runtime \<Rightarrow> resp_part list \<Rightarrow> image_result list \<Rightarrow> string \<Rightarrow> image_result list \<times> string" where
  "bufferLoop env [] imgs textResponse = (imgs, textResponse)"
| "bufferLoop env (p # ps) imgs textResponse =
     (case part_inlineData p of
        Some d \<Rightarrow>
          bufferLoop env ps (imgs @ [BufferImage (fromBase64 env (data d)) (mimeType d) (data d)])
            textResponse
      | None \<Rightarrow>
          (case part_text p of
             None \<Rightarrow> bufferLoop env ps imgs textResponse
           | Some t \<Rightarrow>
               if t \<noteq> [] then bufferLoop env ps imgs (textResponse @ t)
               else bufferLoop env ps imgs textResponse))"

text \<open>The same loop in the file-saving \<^verbatim>\<open>generateImage\<close> (geminiService.js 400-414): each
  image is written with \<^verbatim>\<open>saveImageToFile\<close>, whose throw leaves the loop.\<close>

fun fileLoop ::
  "runtime \<Rightarrow> world \<Rightarrow> resp_part list \<Rightarrow> image_result list \<Rightarrow> string \<Rightarrow>
     (error + image_result list \<times> string) \<times> world" where
  "fileLoop env w [] imgs textResponse = (Inr (imgs, textResponse), w)"
| "fileLoop env w (p # ps) imgs textResponse =
     (case part_inlineData p of
        Some d \<Rightarrow>
          (case saveImageToFile env w (data d) (mimeType d) of
             (Inl e, w') \<Rightarrow> (Inl e, w')
           | (Inr imageUrl, w') \<Rightarrow>
               fileLoop env w' ps (imgs @ [FileImage imageUrl (mimeType d)]) textResponse)
      | None \<Rightarrow>
          (case part_text p of
             None \<Rightarrow> fileLoop env w ps imgs textResponse
           | Some t \<Rightarrow>
               if t \<noteq> [] then fileLoop env w ps imgs (textResponse @ t)
               else fileLoop env w ps imgs textResponse))"

text \<open>The aggregation around the loops: \<^verbatim>\<open>images = []\<close>, \<^verbatim>\<open>textResponse = ''\<close>, then the
  guarded loop (geminiService.js 483-505 for the buffer presets, 393-415 for the
  file-saving \<^verbatim>\<open>generateImage\<close>).\<close>

definition aggregateBuffers :: "runtime \<Rightarrow> gen_response \<Rightarrow> image_result list \<times> string" where
  "aggregateBuffers env response =
     (case first_candidate_parts (candidates response) of
        None \<Rightarrow> ([], [])
      | Some ps \<Rightarrow> bufferLoop env ps [] [])"

definition aggregateFiles ::
  "runtime \<Rightarrow> world \<Rightarrow> gen_response \<Rightarrow> (error + image_result list \<times> string) \<times> world" where
  "aggregateFiles env w response =
     (case first_candidate_parts (candidates response) of
        None \<Rightarrow> (Inr ([], []), w)
      | Some ps \<Rightarrow> fileLoop env w ps [] [])"

section \<open>Content Assembler and Generation Client: the chat methods\<close>

text \<open>\<^verbatim>\<open>config.models.chat\<close> (config.js 5).\<close>

definition config_models_chat :: string where
  "config_models_chat = ''gemini-2.5-flash''"

record chat_request =
  model :: "string option"
  sessionId :: "string option"
  systemPrompt :: "string option"
  message :: string
  "file" :: "media option"
  useTools :: "bool option"
  useThinking :: "bool option"

record chat_result =
  r_text :: string
  r_chunks :: "string list option"
  r_sessionId :: "string option"
  r_usedTools :: bool
  r_usedThinking :: bool

text \<open>A destructuring default applies when the property is \<^verbatim>\<open>undefined\<close>.\<close>

definition default_to :: "'a \<Rightarrow> 'a option \<Rightarrow> 'a" where
  "default_to d v = (case v of None \<Rightarrow> d | Some x \<Rightarrow> x)"

text \<open>\<^verbatim>\<open>configOptions\<close> (geminiService.js 276-293, and 78-95 in the first definition):
  \<^verbatim>\<open>thinkingConfig\<close> and \<^verbatim>\<open>tools\<close> are set only when asked for.\<close>

definition chatConfig :: "bool \<Rightarrow> bool \<Rightarrow> gen_config" where
  "chatConfig tools_on thinking_on =
     \<lparr>thinkingBudget = (if thinking_on then Some (- 1) else None),
      tools = (if tools_on then Some [''googleSearch''] else None),
      responseModalities = None\<rparr>"

text \<open>\<^verbatim>\<open>if (file) { ... }\<close> (geminiService.js 299-320, and 101-122): an absent file and the
  empty string add no part.\<close>

definition resolveOptionalFile :: "runtime \<Rightarrow> media option \<Rightarrow> error + inlineData option" where
  "resolveOptionalFile env f =
     (case f of
        None \<Rightarrow> Inr None
      | Some (Url u) \<Rightarrow>
          if u = [] then Inr None
          else (case resolveMedia env (Url u) of Inl e \<Rightarrow> Inl e | Inr d \<Rightarrow> Inr (Some d))
      | Some (FileObject fo) \<Rightarrow>
          (case resolveMedia env (FileObject fo) of Inl e \<Rightarrow> Inl e | Inr d \<Rightarrow> Inr (Some d)))"

text \<open>\<^verbatim>\<open>parts\<close> and \<^verbatim>\<open>contents\<close> (geminiService.js 296, 314-335, and 98, 116-137).\<close>

definition chatContents :: "string option \<Rightarrow> string \<Rightarrow> inlineData option \<Rightarrow> turn list" where
  "chatContents sp msg resolved =
     (if truthy sp then [\<lparr>role = ''user'', parts = [Text sp]\<rparr>] else []) @
     [\<lparr>role = ''user'',
       parts = Text (Some msg) # (case resolved of None \<Rightarrow> [] | Some d \<Rightarrow> [InlineData d])\<rparr>]"

definition chatRequest :: "chat_request \<Rightarrow> inlineData option \<Rightarrow> gen_request" where
  "chatRequest request resolved =
     \<lparr>g_model = default_to config_models_chat (model request),
      g_config = chatConfig (default_to False (useTools request))
                            (default_to False (useThinking request)),
      g_contents = chatContents (systemPrompt request) (message request) resolved\<rparr>"

text \<open>\<^verbatim>\<open>sessionId || null\<close>.\<close>

definition echo_session :: "string option \<Rightarrow> string option" where
  "echo_session sid = (if truthy sid then sid else None)"

text \<open>The loop \<^verbatim>\<open>for await (const chunk of response)\<close> of the first definition
  (geminiService.js 149-154).\<close>

fun chatStreamLoop :: "chunk list \<Rightarrow> string \<Rightarrow> string list \<Rightarrow> string \<times> string list" where
  "chatStreamLoop [] fullText chunks = (fullText, chunks)"
| "chatStreamLoop (c # cs) fullText chunks =
     (case chunk_text c of
        None \<Rightarrow> chatStreamLoop cs fullText chunks
      | Some t \<Rightarrow>
          if t \<noteq> [] then chatStreamLoop cs (fullText @ t) (chunks @ [t])
          else chatStreamLoop cs fullText chunks)"

text \<open>The class body defines \<^verbatim>\<open>generateChatResponse\<close> twice. This is the first
  definition (geminiService.js 65-166), which streams.\<close>

definition generateChatResponse_65 ::
  "runtime \<Rightarrow> world \<Rightarrow> chat_request \<Rightarrow> (error + chat_result) \<times> world" where
  "generateChatResponse_65 env w request =
     (case resolveOptionalFile env (file request) of
        Inl e \<Rightarrow> (Inl (Error (''Chat generation failed: '' @ error_message e)), w)
      | Inr resolved \<Rightarrow>
          (let greq = chatRequest request resolved;
               w1 = dispatch (Streaming greq) w
           in case generateContentStream env greq of
                Inl e \<Rightarrow> (Inl (Error (''Chat generation failed: '' @ error_message e)), w1)
              | Inr (cs, Some e) \<Rightarrow> (Inl (Error (''Chat generation failed: '' @ error_message e)), w1)
              | Inr (cs, None) \<Rightarrow>
                  (case chatStreamLoop cs [] [] of
                     (fullText, chunks) \<Rightarrow>
                       (Inr \<lparr>r_text = fullText,
                             r_chunks = Some chunks,
                             r_sessionId = echo_session (sessionId request),
                             r_usedTools = default_to False (useTools request),
                             r_usedThinking = default_to False (useThinking request)\<rparr>, w1))))"

text \<open>The second definition (geminiService.js 263-355), which does not stream.\<close>

definition generateChatResponse_263 ::
  "runtime \<Rightarrow> world \<Rightarrow> chat_request \<Rightarrow> (error + chat_result) \<times> world" where
  "generateChatResponse_263 env w request =
     (case resolveOptionalFile env (file request) of
        Inl e \<Rightarrow> (Inl (Error (''Chat generation failed: '' @ error_message e)), w)
      | Inr resolved \<Rightarrow>
          (let greq = chatRequest request resolved;
               w1 = dispatch (NonStreaming greq) w
           in case generateContent env greq of
                Inl e \<Rightarrow> (Inl (Error (''Chat generation failed: '' @ error_message e)), w1)
              | Inr response \<Rightarrow>
                  (Inr \<lparr>r_text = or_else (response_text response) [],
                        r_chunks = None,
                        r_sessionId = echo_session (sessionId request),
                        r_usedTools = default_to False (useTools request),
                        r_usedThinking = default_to False (useThinking request)\<rparr>, w1)))"

text \<open>A class body may define a method name more than once; each definition overwrites the
  property on the prototype, so a call reaches the last one.\<close>

definition generateChatResponse ::
  "runtime \<Rightarrow> world \<Rightarrow> chat_request \<Rightarrow> (error + chat_result) \<times> world" where
  "generateChatResponse = last [generateChatResponse_65, generateChatResponse_263]"

section \<open>The image methods\<close>

record image_request =
  i_model :: "string option"
  prompt :: "string option"

definition image_model :: string where
  "image_model = ''gemini-2.5-flash-image-preview''"

definition imageConfig :: gen_config where
  "imageConfig = \<lparr>thinkingBudget = None, tools = None,
                   responseModalities = Some [''IMAGE'', ''TEXT'']\<rparr>"

definition imageRequest :: "image_request \<Rightarrow> gen_request" where
  "imageRequest request =
     \<lparr>g_model = default_to image_model (i_model request),
      g_config = imageConfig,
      g_contents = [\<lparr>role = ''user'', parts = [Text (prompt request)]\<rparr>]\<rparr>"

text \<open>The chunk loop of the first \<^verbatim>\<open>generateImage\<close> (geminiService.js 229-246). Its guard
  reads \<^verbatim>\<open>chunk.candidates[0].content\<close> without testing \<^verbatim>\<open>chunk.candidates[0]\<close>, which
  throws on an empty array.\<close>

fun imageStreamLoop ::
  "runtime \<Rightarrow> chunk list \<Rightarrow> image_result list \<Rightarrow> string \<Rightarrow> error + image_result list \<times> string" where
  "imageStreamLoop env [] imgs textResponse = Inr (imgs, textResponse)"
| "imageStreamLoop env (c # cs) imgs textResponse =
     (case chunk_candidates c of
        None \<Rightarrow> imageStreamLoop env cs imgs textResponse
      | Some [] \<Rightarrow> Inl (readOfUndefined env ''content'')
      | Some (cand # _) \<Rightarrow>
          (case candidate_content cand of
             None \<Rightarrow> imageStreamLoop env cs imgs textResponse
           | Some ct \<Rightarrow>
               (case content_parts ct of
                  None \<Rightarrow> imageStreamLoop env cs imgs textResponse
                | Some ps \<Rightarrow>
                    (case (case ps of [] \<Rightarrow> None | p # _ \<Rightarrow> part_inlineData p) of
                       Some d \<Rightarrow>
                         imageStreamLoop env cs (imgs @ [InlineImage (data d) (mimeType d)])
                           textResponse
                     | None \<Rightarrow>
                         imageStreamLoop env cs imgs
                           (textResponse @ or_else (chunk_text c) [])))))"

text \<open>The first \<^verbatim>\<open>generateImage\<close> (geminiService.js 198-256), which streams and keeps the
  base64 data.\<close>

definition generateImage_198 ::
  "runtime \<Rightarrow> world \<Rightarrow> image_request \<Rightarrow> (error + artifact) \<times> world" where
  "generateImage_198 env w request =
     (let greq = imageRequest request;
          w1 = dispatch (Streaming greq) w
      in case generateContentStream env greq of
           Inl e \<Rightarrow> (Inl (Error (''Image generation failed: '' @ error_message e)), w1)
         | Inr (cs, end_error) \<Rightarrow>
             (case imageStreamLoop env cs [] [] of
                Inl e \<Rightarrow> (Inl (Error (''Image generation failed: '' @ error_message e)), w1)
              | Inr (imgs, textResponse) \<Rightarrow>
                  (case end_error of
                     Some e \<Rightarrow> (Inl (Error (''Image generation failed: '' @ error_message e)), w1)
                   | None \<Rightarrow>
                       (Inr \<lparr>images = imgs, a_text = textResponse,
                             totalImages = length imgs, a_type = None\<rparr>, w1))))"

text \<open>The second \<^verbatim>\<open>generateImage\<close> (geminiService.js 362-425), which does not stream and
  saves every image to a file.\<close>

definition generateImage_362 ::
  "runtime \<Rightarrow> world \<Rightarrow> image_request \<Rightarrow> (error + artifact) \<times> world" where
  "generateImage_362 env w request =
     (let greq = imageRequest request;
          w1 = dispatch (NonStreaming greq) w
      in case generateContent env greq of
           Inl e \<Rightarrow> (Inl (Error (''Image generation failed: '' @ error_message e)), w1)
         | Inr response \<Rightarrow>
             (case aggregateFiles env w1 response of
                (Inl e, w2) \<Rightarrow>
                  (Inl (Error (''Image generation failed: '' @ error_message e)), w2)
              | (Inr (imgs, textResponse), w2) \<Rightarrow>
                  (Inr \<lparr>images = imgs, a_text = textResponse,
                        totalImages = length imgs, a_type = None\<rparr>, w2)))"

definition generateImage ::
  "runtime \<Rightarrow> world \<Rightarrow> image_request \<Rightarrow> (error + artifact) \<times> world" where
  "generateImage = last [generateImage_198, generateImage_362]"

section \<open>The image-to-image presets\<close>

record transform_request =
  image_in :: media
  t_model :: "string option"

definition FIGURINE_PROMPT :: string where
  "FIGURINE_PROMPT = ''Using the nano-banana model, a commercial 1/7 scale figurine of the character in the picture was created, depicting a realistic style and a realistic environment. The figurine is placed on a computer desk with a round transparent acrylic base. There is no text on the base. The computer screen shows the Zbrush modeling process of the figurine. Next to the computer screen is a BANDAI-style toy box with the original painting printed on it.''"

definition HIJAB_PROMPT :: string where
  "HIJAB_PROMPT = ''Modify only the hair area by converting it into a neat, fully-covered white hijab in Indonesian Muslim style (100% no hair visible), while STRICTLY PRESERVING all other elements: do NOT alter skin color, clothing, facial features, pose, background, shadows, or any original details beyond the hair-to-hijab conversion'' @ [CHR 0xE2, CHR 0x80, CHR 0x94] @ ''no additions/subtractions permitted.''"

definition SDMTINGGI_PROMPT :: string where
  "SDMTINGGI_PROMPT = ''Edit the uploaded image by keeping the exact same character and anything they are holding without changing their pose, position, or appearance, convert only the character and held objects into grayscale with all visual details preserved (not fully white), add a clean solid black rectangular censor bar that precisely follows the orientation of the character'' @ [CHR 0x27] @ ''s eyes and covers only the eyes, remove the entire original background completely and replace it with a flat solid pure red color (#FF0000), and make sure no parts of the character or the items they are holding are removed or replaced.''"

text \<open>
  \<^verbatim>\<open>generateFigurine\<close> (geminiService.js 433-516), \<^verbatim>\<open>generateHijab\<close> (518-601) and
  \<^verbatim>\<open>generateSdmTinggi\<close> (603-686) are the same text up to three strings: the prompt, the
  value of \<^verbatim>\<open>type\<close> in the result and the prefix of the rethrown error. The body is
  written once, with the three strings as arguments.
\<close>

definition presetRequest :: "string \<Rightarrow> string option \<Rightarrow> inlineData \<Rightarrow> gen_request" where
  "presetRequest promptText m d =
     \<lparr>g_model = default_to image_model m,
      g_config = imageConfig,
      g_contents = [\<lparr>role = ''user'', parts = [Text (Some promptText), InlineData d]\<rparr>]\<rparr>"

definition bufferPreset ::
  "string \<Rightarrow> string \<Rightarrow> string \<Rightarrow> runtime \<Rightarrow> world \<Rightarrow> transform_request \<Rightarrow>
     (error + artifact) \<times> world" where
  "bufferPreset promptText label failed env w request =
     (case resolveMedia env (image_in request) of
        Inl e \<Rightarrow> (Inl (Error (failed @ error_message e)), w)
      | Inr d \<Rightarrow>
          (let greq = presetRequest promptText (t_model request) d;
               w1 = dispatch (NonStreaming greq) w
           in case generateContent env greq of
                Inl e \<Rightarrow> (Inl (Error (failed @ error_message e)), w1)
              | Inr response \<Rightarrow>
                  (case aggregateBuffers env response of
                     (imgs, textResponse) \<Rightarrow>
                       (Inr \<lparr>images = imgs, a_text = textResponse,
                             totalImages = length imgs, a_type = Some label\<rparr>, w1))))"

definition generateFigurine ::
  "runtime \<Rightarrow> world \<Rightarrow> transform_request \<Rightarrow> (error + artifact) \<times> world" where
  "generateFigurine = bufferPreset FIGURINE_PROMPT ''figurine'' ''Figurine generation failed: ''"

definition generateHijab ::
  "runtime \<Rightarrow> world \<Rightarrow> transform_request \<Rightarrow> (error + artifact) \<times> world" where
  "generateHijab = bufferPreset HIJAB_PROMPT ''hijab'' ''Hijab generation failed: ''"

definition generateSdmTinggi ::
  "runtime \<Rightarrow> world \<Rightarrow> transform_request \<Rightarrow> (error + artifact) \<times> world" where
  "generateSdmTinggi = bufferPreset SDMTINGGI_PROMPT ''sdmtinggi'' ''SdmTinggi generation failed: ''"

text \<open>
  Modelled from the spec: \<^verbatim>\<open>generateHitam\<close>, which \<^verbatim>\<open>hitamController.js\<close> calls (lines 9
  and 58) and which the class in \<^verbatim>\<open>geminiService.js\<close> does not contain. The spec's preset
  table gives it a literal prompt, a single required image, no streaming and the buffer
  policy, and leaves the prompt's text open; the prompt is therefore an argument, and the
  body is the one of the three presets above.
\<close>

definition generateHitam ::
  "string \<Rightarrow> runtime \<Rightarrow> world \<Rightarrow> transform_request \<Rightarrow> (error + artifact) \<times> world" where
  "generateHitam HITAM_PROMPT = bufferPreset HITAM_PROMPT ''hitam'' ''Hitam generation failed: ''"

section \<open>Controllers\<close>

datatype json = Failure string | ChatSuccess chat_result | ImageSuccess artifact

datatype body = BufferBody bytes | UndefinedBody | JsonBody json

record http_response =
  status :: "nat option"
  headers :: "(string \<times> string) list"
  body :: body

definition failure_response :: "string \<Rightarrow> http_response" where
  "failure_response msg = \<lparr>status = None, headers = [], body = JsonBody (Failure msg)\<rparr>"

definition image_headers :: "image_result \<Rightarrow> string \<Rightarrow> (string \<times> string) list" where
  "image_headers firstImage filename =
     [(''Content-Type'', image_mimeType firstImage),
      (''Content-Disposition'',
       ''attachment; filename='' @ [CHR 0x22] @ filename @ [CHR 0x22])]"

text \<open>What the four preset controllers do with a result (lines 13-28 and 62-77 of
  \<^verbatim>\<open>figurineController\<close>, \<^verbatim>\<open>hijabController\<close>, \<^verbatim>\<open>sdmtinggiController\<close>,
  \<^verbatim>\<open>hitamController\<close>).\<close>

definition firstImageResponse :: "string \<Rightarrow> artifact \<Rightarrow> http_response" where
  "firstImageResponse filename result =
     (case images result of
        [] \<Rightarrow> failure_response ''No image generated''
      | firstImage # _ \<Rightarrow>
          \<lparr>status = None,
           headers = image_headers firstImage filename,
           body = (case image_buffer firstImage of
                     None \<Rightarrow> UndefinedBody
                   | Some b \<Rightarrow> BufferBody b)\<rparr>)"

text \<open>The \<^verbatim>\<open>POST /\<close> handler (lines 7-35): the body schema makes \<^verbatim>\<open>image\<close> a file.\<close>

definition presetController_post ::
  "(runtime \<Rightarrow> world \<Rightarrow> transform_request \<Rightarrow> (error + artifact) \<times> world) \<Rightarrow> string \<Rightarrow>
     runtime \<Rightarrow> world \<Rightarrow> file_object \<Rightarrow> http_response \<times> world" where
  "presetController_post generate filename env w image_file =
     (case generate env w \<lparr>image_in = FileObject image_file, t_model = None\<rparr> of
        (Inl e, w') \<Rightarrow> (failure_response (error_message e), w')
      | (Inr result, w') \<Rightarrow> (firstImageResponse filename result, w'))"

text \<open>The \<^verbatim>\<open>GET /\<close> handler (lines 49-84), with its guard \<^verbatim>\<open>if (!query.imageUrl)\<close>.\<close>

definition presetController_get ::
  "(runtime \<Rightarrow> world \<Rightarrow> transform_request \<Rightarrow> (error + artifact) \<times> world) \<Rightarrow> string \<Rightarrow>
     runtime \<Rightarrow> world \<Rightarrow> string option \<Rightarrow> http_response \<times> world" where
  "presetController_get generate filename env w imageUrl =
     (case imageUrl of
        None \<Rightarrow> (failure_response ''imageUrl parameter is required'', w)
      | Some u \<Rightarrow>
          if u = [] then (failure_response ''imageUrl parameter is required'', w)
          else (case generate env w \<lparr>image_in = Url u, t_model = None\<rparr> of
                  (Inl e, w') \<Rightarrow> (failure_response (error_message e), w')
                | (Inr result, w') \<Rightarrow> (firstImageResponse filename result, w')))"

definition figurineController_post where
  "figurineController_post = presetController_post generateFigurine ''figurine.png''"

definition figurineController_get where
  "figurineController_get = presetController_get generateFigurine ''figurine.png''"

definition hijabController_post where
  "hijabController_post = presetController_post generateHijab ''hijab.png''"

definition hijabController_get where
  "hijabController_get = presetController_get generateHijab ''hijab.png''"

definition sdmtinggiController_post where
  "sdmtinggiController_post = presetController_post generateSdmTinggi ''sdmtinggi.png''"

definition sdmtinggiController_get where
  "sdmtinggiController_get = presetController_get generateSdmTinggi ''sdmtinggi.png''"

definition hitamController_post where
  "hitamController_post HITAM_PROMPT =
     presetController_post (generateHitam HITAM_PROMPT) ''hitam.png''"

definition hitamController_get where
  "hitamController_get HITAM_PROMPT =
     presetController_get (generateHitam HITAM_PROMPT) ''hitam.png''"

text \<open>\<^verbatim>\<open>chatController\<close> (second part of \<^verbatim>\<open>controllers/imageController.js\<close>): its four
  routes hand the request to \<^verbatim>\<open>generateChatResponse\<close> and wrap what comes back.\<close>

definition chatController ::
  "runtime \<Rightarrow> world \<Rightarrow> chat_request \<Rightarrow> http_response \<times> world" where
  "chatController env w request =
     (case generateChatResponse env w request of
        (Inl e, w') \<Rightarrow>
          (\<lparr>status = Some 500, headers = [], body = JsonBody (Failure (error_message e))\<rparr>, w')
      | (Inr response, w') \<Rightarrow>
          (\<lparr>status = None, headers = [], body = JsonBody (ChatSuccess response)\<rparr>, w'))"

text \<open>\<^verbatim>\<open>imageController\<close> as in \<^verbatim>\<open>controllers/imageController.js\<close> (lines 8-17, 31-40):
  the result is wrapped in JSON.\<close>

definition imageController ::
  "runtime \<Rightarrow> world \<Rightarrow> image_request \<Rightarrow> http_response \<times> world" where
  "imageController env w request =
     (case generateImage env w request of
        (Inl e, w') \<Rightarrow>
          (\<lparr>status = Some 500, headers = [], body = JsonBody (Failure (error_message e))\<rparr>, w')
      | (Inr response, w') \<Rightarrow>
          (\<lparr>status = None, headers = [], body = JsonBody (ImageSuccess response)\<rparr>, w'))"

text \<open>\<^verbatim>\<open>imageController\<close> as in the second part of \<^verbatim>\<open>config.js\<close> (lines 15-41, 58-84):
  the first image is returned as a buffer made from its \<^verbatim>\<open>data\<close> property. The headers
  are set before \<^verbatim>\<open>Buffer.from\<close> runs, so they stay set when it throws.\<close>

definition imageController_buffer ::
  "runtime \<Rightarrow> world \<Rightarrow> image_request \<Rightarrow> http_response \<times> world" where
  "imageController_buffer env w request =
     (case generateImage env w request of
        (Inl e, w') \<Rightarrow>
          (\<lparr>status = Some 500, headers = [], body = JsonBody (Failure (error_message e))\<rparr>, w')
      | (Inr response, w') \<Rightarrow>
          (case images response of
             [] \<Rightarrow> (failure_response ''No image generated'', w')
           | firstImage # _ \<Rightarrow>
               (case image_data firstImage of
                  None \<Rightarrow>
                    (\<lparr>status = Some 500,
                      headers = image_headers firstImage ''generated.png'',
                      body = JsonBody (Failure (error_message (bufferFromUndefined env)))\<rparr>, w')
                | Some d \<Rightarrow>
                    (\<lparr>status = None,
                      headers = image_headers firstImage ''generated.png'',
                      body = BufferBody (fromBase64 env d)\<rparr>, w'))))"

section \<open>A concrete runtime\<close>

text \<open>One runtime, used to run the definitions on concrete requests: a host with three
  documents, a model that answers every request with a text part and two images, a clock
  that starts at 1700000000000 ms, and a file system that accepts every write. Its two
  codec functions are stand-ins for base64, one character per byte.\<close>

definition example_response :: gen_response where
  "example_response =
     \<lparr>candidates = Some [Candidate (Some (Content (Some
        [Part None (Some ''done''),
         Part (Some \<lparr>data = ''QUJD'', mimeType = ''image/png''\<rparr>) None,
         Part (Some \<lparr>data = ''REVG'', mimeType = ''image/jpeg''\<rparr>) None])))],
      response_text = Some ''pong''\<rparr>"

definition example_runtime :: runtime where
  "example_runtime =
     \<lparr>fetch = (\<lambda>u.
        if u = ''https://example.org/cat.png''
        then Resolves \<lparr>ok = True, statusText = ''OK'', content_type = Some ''image/png'',
                       arrayBuffer = Inr [137, 80, 78, 71]\<rparr>
        else if u = ''https://example.org/raw''
        then Resolves \<lparr>ok = True, statusText = ''OK'', content_type = None,
                       arrayBuffer = Inr [1, 2]\<rparr>
        else if u = ''https://example.org/gone''
        then Resolves \<lparr>ok = False, statusText = ''Not Found'', content_type = None,
                       arrayBuffer = Inr []\<rparr>
        else Rejects (Error ''fetch failed'')),
      generateContent = (\<lambda>r. Inr example_response),
      generateContentStream = (\<lambda>r. Inr
        ([\<lparr>chunk_candidates = None, chunk_text = Some ''a''\<rparr>,
          \<lparr>chunk_candidates = None, chunk_text = Some ''b''\<rparr>], None)),
      toBase64 = map (\<lambda>n. if n < 128 then CHR ''A'' else CHR ''B''),
      fromBase64 = map (\<lambda>c. if c = CHR ''A'' then 0 else 1),
      bufferFromUndefined = Error ''The first argument must be of type string or an instance of Buffer, ArrayBuffer, or Array or an Array-like Object. Received undefined'',
      readOfUndefined = (\<lambda>p. Error (''Cannot read properties of undefined (reading '' @ p @ '')'')),
      dateNow = (\<lambda>k. 1700000000000 + k),
      cwd = ''/app'',
      path_join = (\<lambda>xs. foldr (\<lambda>x acc. if acc = [] then x else x @ ''/'' @ acc) xs []),
      writeFileSync = (\<lambda>p. None)\<rparr>"

definition example_world :: world where
  "example_world = \<lparr>sessions = Map.empty, files = Map.empty, dispatched = [], clockReads = 0\<rparr>"

text \<open>The same runtime with a model that answers without candidates.\<close>

definition silent_runtime :: runtime where
  "silent_runtime =
     example_runtime\<lparr>generateContent := (\<lambda>r. Inr \<lparr>candidates = None, response_text = None\<rparr>)\<rparr>"

definition example_chat :: chat_request where
  "example_chat =
     \<lparr>model = None, sessionId = Some [], systemPrompt = Some [], message = ''hi'',
      file = None, useTools = None, useThinking = None\<rparr>"

section \<open>Notions of the specification\<close>

text \<open>A fetch that does not retrieve the document, with the text of its cause: the
  rejection's message, or the status text of a response that is not \<^verbatim>\<open>ok\<close>.\<close>

definition fetch_failure :: "fetch_outcome \<Rightarrow> string option" where
  "fetch_failure out =
     (case out of
        Rejects e \<Rightarrow> Some (error_message e)
      | Resolves r \<Rightarrow> if ok r then None else Some (statusText r))"

text \<open>The subtype of a MIME type. A media type is written \<^verbatim>\<open>type "/" subtype\<close>, followed
  by parameters, each after a semicolon (RFC 2045); type and subtype are tokens, made of
  printable characters other than the space and the special characters below. The
  subtype is the token that follows the first slash.\<close>

definition tspecials :: string where
  "tspecials = ''()<>@,;:'' @ [CHR 0x5C, CHR 0x22] @ ''/[]?=''"

definition token_char :: "char \<Rightarrow> bool" where
  "token_char c = (32 < (of_char c :: nat) \<and> (of_char c :: nat) < 127 \<and> c \<notin> set tspecials)"

definition mime_subtype :: "string \<Rightarrow> string" where
  "mime_subtype mime =
     takeWhile token_char (tl (dropWhile (\<lambda>c. c \<noteq> CHR ''/'') mime))"

text \<open>What stands in a string between its first slash and the next one (or the end),
  parameters and spaces included.\<close>

definition slash_segment :: "string \<Rightarrow> string" where
  "slash_segment mime =
     takeWhile (\<lambda>c. c \<noteq> CHR ''/'') (tl (dropWhile (\<lambda>c. c \<noteq> CHR ''/'') mime))"

text \<open>A response with no candidates, or whose first candidate has no content parts.\<close>

definition produced_nothing :: "gen_response \<Rightarrow> bool" where
  "produced_nothing response =
     (case candidates response of
        None \<Rightarrow> True
      | Some [] \<Rightarrow> True
      | Some (c # _) \<Rightarrow>
          (case candidate_content c of
             None \<Rightarrow> True
           | Some ct \<Rightarrow>
               (case content_parts ct of
                  None \<Rightarrow> True
                | Some ps \<Rightarrow> ps = [])))"

text \<open>The inline-image parts of a response: those of its first candidate, in the order the
  model gave them.\<close>

definition image_parts :: "gen_response \<Rightarrow> inlineData list" where
  "image_parts response =
     (case candidates response of
        None \<Rightarrow> []
      | Some [] \<Rightarrow> []
      | Some (c # _) \<Rightarrow>
          (case candidate_content c of
             None \<Rightarrow> []
           | Some ct \<Rightarrow>
               (case content_parts ct of
                  None \<Rightarrow> []
                | Some ps \<Rightarrow> List.map_filter part_inlineData ps)))"

section \<open>Properties\<close>

lemma truthy_simps [simp]: "truthy None = False" "truthy (Some s) = (s \<noteq> [])"
  by (simp_all add: truthy_def)

subsection \<open>Remote media that cannot be retrieved\<close>

text \<open>
  Claim C5. A remote reference that cannot be retrieved (the fetch is rejected, or its
  response is not \<^verbatim>\<open>ok\<close>) makes resolution fail with an error whose message ends with
  the cause: the transport error's text, or the upstream status text.
\<close>

theorem fetch_failure_message:
  assumes "fetch_failure (fetch env u) = Some cause"
  shows "\<exists>m. resolveMedia env (Url u) = Inl (Error m) \<and>
             prefix ''Error fetching file from URL: '' m \<and> suffix cause m"
  using assms
  by (auto simp: fetch_failure_def resolveMedia_def fetchFileFromUrl_def suffix_def
           split: fetch_outcome.splits if_splits)

theorem fetch_failure_message_witness:
  "fetch_failure (fetch example_runtime ''https://example.org/gone'') = Some ''Not Found'' \<and>
   fetch_failure (fetch example_runtime ''https://nowhere.invalid/x'') = Some ''fetch failed'' \<and>
   resolveMedia example_runtime (Url ''https://example.org/gone'') =
     Inl (Error ''Error fetching file from URL: Failed to fetch file: Not Found'') \<and>
   resolveMedia example_runtime (Url ''https://nowhere.invalid/x'') =
     Inl (Error ''Error fetching file from URL: fetch failed'')"
  using fetch_failure_message [of example_runtime "''https://example.org/gone''" "''Not Found''"]
        fetch_failure_message [of example_runtime "''https://nowhere.invalid/x''" "''fetch failed''"]
  by (simp add: fetch_failure_def example_runtime_def resolveMedia_def fetchFileFromUrl_def)

subsection \<open>Materializing an image as a file\<close>

lemma split_on_takeWhile:
  "split_on c s =
     takeWhile (\<lambda>x. x \<noteq> c) s #
       (case dropWhile (\<lambda>x. x \<noteq> c) s of [] \<Rightarrow> [] | _ # r \<Rightarrow> split_on c r)"
  by (induction s) (auto split: list.splits)

lemma extension_of_segment:
  "extension_of mime = (if slash_segment mime = [] then ''png'' else slash_segment mime)"
proof (cases "dropWhile (\<lambda>x. x \<noteq> CHR ''/'') mime")
  case Nil
  have "split_on CHR ''/'' mime = [takeWhile (\<lambda>x. x \<noteq> CHR ''/'') mime]"
    by (subst split_on_takeWhile) (simp only: Nil list.case)
  moreover have "slash_segment mime = []"
    by (simp only: slash_segment_def Nil list.sel takeWhile.simps)
  ultimately show ?thesis
    by (simp add: extension_of_def)
next
  case (Cons x r)
  have "split_on CHR ''/'' mime =
          takeWhile (\<lambda>x. x \<noteq> CHR ''/'') mime # split_on CHR ''/'' r"
    by (subst split_on_takeWhile) (simp only: Cons list.case)
  moreover have "\<exists>rest. split_on CHR ''/'' r = takeWhile (\<lambda>x. x \<noteq> CHR ''/'') r # rest"
    by (subst split_on_takeWhile) blast
  moreover have "slash_segment mime = takeWhile (\<lambda>x. x \<noteq> CHR ''/'') r"
    by (simp only: slash_segment_def Cons list.sel)
  ultimately show ?thesis
    by (auto simp: extension_of_def)
qed

lemma slash_not_token: "\<not> token_char CHR ''/''"
  by (simp add: token_char_def tspecials_def)

lemma takeWhile_token_segment:
  "takeWhile token_char r = takeWhile (\<lambda>c. c \<noteq> CHR ''/'') r \<longleftrightarrow>
   list_all token_char (takeWhile (\<lambda>c. c \<noteq> CHR ''/'') r)"
proof (induction r)
  case Nil
  show ?case by simp
next
  case (Cons c r)
  then show ?case
    using slash_not_token by (cases "c = CHR ''/''") auto
qed

lemma segment_is_subtype:
  "slash_segment mime = mime_subtype mime \<longleftrightarrow> list_all token_char (slash_segment mime)"
  unfolding slash_segment_def mime_subtype_def
  using takeWhile_token_segment [of "tl (dropWhile (\<lambda>c. c \<noteq> CHR ''/'') mime)"]
  by auto

lemma show_nat_example: "show_nat 1700000000000 = ''1700000000000''"
  by (simp add: show_nat.simps)

text \<open>Claim C8 fails for a MIME type with a parameter: the subtype of
  \<^verbatim>\<open>image/png; charset=binary\<close> is \<^verbatim>\<open>png\<close>, and the file gets the extension
  \<^verbatim>\<open>png; charset=binary\<close>.\<close>

theorem extension_with_parameters_counterexample:
  "mime_subtype ''image/png; charset=binary'' = ''png'' \<and>
   saveImageToFile example_runtime example_world ''QUJD'' ''image/png; charset=binary'' =
     (Inr ''/images/generated_1700000000000.png; charset=binary'',
      example_world\<lparr>clockReads := 1,
        files := (files example_world)
          (''/app/public/images/generated_1700000000000.png; charset=binary'' \<mapsto>
             [1, 1, 1, 1])\<rparr>)"
proof -
  have "mime_subtype ''image/png; charset=binary'' = ''png''"
    by (simp add: mime_subtype_def token_char_def tspecials_def)
  moreover have "extension_of ''image/png; charset=binary'' = ''png; charset=binary''"
    by (simp add: extension_of_def)
  ultimately show ?thesis
    by (simp add: saveImageToFile_def Let_def example_runtime_def example_world_def
          imagesDir_def show_nat_example)
qed

text \<open>
  Claim C8, amended. When the write succeeds, \<^verbatim>\<open>saveImageToFile\<close> stores the decoded
  bytes under the output directory, in a file named \<^verbatim>\<open>generated_<timestamp>.<ext>\<close>, and
  returns \<^verbatim>\<open>/images/<filename>\<close>. The extension is what stands in the MIME type between
  the first slash and the next one or the end, or \<^verbatim>\<open>png\<close> when that is missing or
  empty. It is the subtype exactly when nothing but token characters stand there, that
  is, for a MIME type without parameters.
\<close>

theorem saveImageToFile_names_the_file:
  assumes "ext = (if slash_segment mime = [] then ''png'' else slash_segment mime)"
    and "filename = ''generated_'' @ show_nat (dateNow env (clockReads w)) @ ''.'' @ ext"
    and "filepath = path_join env [imagesDir env, filename]"
    and "writeFileSync env filepath = None"
  shows "saveImageToFile env w base64Data mime =
           (Inr (''/images/'' @ filename),
            w\<lparr>clockReads := Suc (clockReads w),
              files := (files w)(filepath \<mapsto> fromBase64 env base64Data)\<rparr>) \<and>
         (slash_segment mime = mime_subtype mime \<longleftrightarrow>
            list_all token_char (slash_segment mime))"
  using assms by (simp add: saveImageToFile_def Let_def extension_of_segment segment_is_subtype)

theorem saveImageToFile_names_the_file_witness:
  "saveImageToFile example_runtime example_world ''QUJD'' ''image/jpeg'' =
     (Inr ''/images/generated_1700000000000.jpeg'',
      example_world\<lparr>clockReads := 1,
        files := (files example_world)
          (''/app/public/images/generated_1700000000000.jpeg'' \<mapsto> [1, 1, 1, 1])\<rparr>) \<and>
   mime_subtype ''image/jpeg'' = ''jpeg'' \<and>
   saveImageToFile example_runtime example_world ''QUJD'' ''image'' =
     (Inr ''/images/generated_1700000000000.png'',
      example_world\<lparr>clockReads := 1,
        files := (files example_world)
          (''/app/public/images/generated_1700000000000.png'' \<mapsto> [1, 1, 1, 1])\<rparr>)"
proof -
  have jpeg: "slash_segment ''image/jpeg'' = ''jpeg''" and none: "slash_segment ''image'' = []"
    by (simp_all add: slash_segment_def)
  have tokens: "list_all token_char ''jpeg''"
    by (simp add: token_char_def tspecials_def)
  show ?thesis
    using saveImageToFile_names_the_file
            [of "''jpeg''" "''image/jpeg''" "''generated_1700000000000.jpeg''" example_runtime
                example_world "''/app/public/images/generated_1700000000000.jpeg''" "''QUJD''"]
          saveImageToFile_names_the_file
            [of "''png''" "''image''" "''generated_1700000000000.png''" example_runtime
                example_world "''/app/public/images/generated_1700000000000.png''" "''QUJD''"]
          jpeg none tokens
    by (simp add: example_runtime_def example_world_def imagesDir_def show_nat_example)
qed

subsection \<open>Required media missing\<close>

text \<open>
  Claim C4. The four presets that require one image (figurine, hijab, sdmtinggi, hitam)
  answer a request without an image reference with the failure envelope
  \<^verbatim>\<open>imageUrl parameter is required\<close> and leave the process state as it was: in
  particular nothing is added to the log of calls to the model. The reference is missing
  when \<^verbatim>\<open>query.imageUrl\<close> is undefined or empty; the body schema of the \<^verbatim>\<open>POST\<close> route
  admits no request without a file.
\<close>

theorem missing_image_fails_before_dispatch:
  assumes "\<not> truthy imageUrl"
  shows "figurineController_get env w imageUrl =
           (failure_response ''imageUrl parameter is required'', w) \<and>
         hijabController_get env w imageUrl =
           (failure_response ''imageUrl parameter is required'', w) \<and>
         sdmtinggiController_get env w imageUrl =
           (failure_response ''imageUrl parameter is required'', w) \<and>
         hitamController_get HITAM_PROMPT env w imageUrl =
           (failure_response ''imageUrl parameter is required'', w)"
  using assms
  by (cases imageUrl)
     (simp_all add: figurineController_get_def hijabController_get_def
        sdmtinggiController_get_def hitamController_get_def presetController_get_def)

theorem missing_image_fails_before_dispatch_witness:
  "\<not> truthy None \<and> \<not> truthy (Some []) \<and>
   figurineController_get example_runtime example_world None =
     (failure_response ''imageUrl parameter is required'', example_world) \<and>
   hitamController_get ''darken'' example_runtime example_world (Some []) =
     (failure_response ''imageUrl parameter is required'', example_world) \<and>
   dispatched (snd (sdmtinggiController_get example_runtime example_world (Some []))) = []"
  using missing_image_fails_before_dispatch [of None example_runtime example_world "''darken''"]
        missing_image_fails_before_dispatch [of "Some []" example_runtime example_world "''darken''"]
  by (simp add: example_world_def)

subsection \<open>The MIME type of resolved media\<close>

text \<open>Claim C3 fails for an upload whose declared type is the empty string: the inline
  branch copies \<^verbatim>\<open>file.type\<close>, and the resolved media has an empty MIME type.\<close>

theorem inline_mime_type_counterexample:
  "resolveMedia example_runtime (FileObject \<lparr>file_bytes = [1, 2, 3], file_type = []\<rparr>) =
     Inr \<lparr>data = ''AAA'', mimeType = []\<rparr>"
  by (simp add: resolveMedia_def example_runtime_def)

text \<open>
  Claim C3, amended. A remote reference that resolves has a non-empty MIME type, which is
  \<^verbatim>\<open>application/octet-stream\<close> when the response has no content-type header (or an
  empty one). An inline reference always resolves, to the encoded bytes and the declared
  type of the upload as it is: its MIME type is non-empty exactly when the declared type
  is.
\<close>

theorem resolved_mime_type:
  "(\<forall>d. resolveMedia env (Url u) = Inr d \<longrightarrow>
        mimeType d \<noteq> [] \<and>
        (\<forall>r. fetch env u = Resolves r \<and> \<not> truthy (content_type r) \<longrightarrow>
             mimeType d = ''application/octet-stream'')) \<and>
   resolveMedia env (FileObject f) =
     Inr \<lparr>data = toBase64 env (file_bytes f), mimeType = file_type f\<rparr>"
  by (auto simp: resolveMedia_def fetchFileFromUrl_def or_else_def truthy_def
           split: fetch_outcome.splits if_splits sum.splits option.splits)

theorem resolved_mime_type_witness:
  "resolveMedia example_runtime (Url ''https://example.org/raw'') =
     Inr \<lparr>data = ''AA'', mimeType = ''application/octet-stream''\<rparr> \<and>
   resolveMedia example_runtime (FileObject \<lparr>file_bytes = [200], file_type = ''image/png''\<rparr>) =
     Inr \<lparr>data = ''B'', mimeType = ''image/png''\<rparr>"
  using resolved_mime_type [of example_runtime "''https://example.org/raw''"
          "\<lparr>file_bytes = [200], file_type = ''image/png''\<rparr>"]
  by (simp add: resolveMedia_def fetchFileFromUrl_def or_else_def example_runtime_def)

subsection \<open>The hitam preset\<close>

lemma bufferLoop_images:
  "fst (bufferLoop env ps imgs tx) =
     imgs @ map (\<lambda>d. BufferImage (fromBase64 env (data d)) (mimeType d) (data d))
                (List.map_filter part_inlineData ps)"
  by (induction ps arbitrary: imgs tx) (auto split: option.splits)

lemma aggregateBuffers_first:
  assumes "first_candidate_parts (candidates response) = Some ps"
    and "List.map_filter part_inlineData ps = i # others"
  shows "\<exists>rest tx. aggregateBuffers env response =
           (BufferImage (fromBase64 env (data i)) (mimeType i) (data i) # rest, tx)"
proof -
  have "fst (aggregateBuffers env response) =
          map (\<lambda>d. BufferImage (fromBase64 env (data d)) (mimeType d) (data d)) (i # others)"
    using assms by (simp add: aggregateBuffers_def bufferLoop_images)
  then show ?thesis
    by (cases "aggregateBuffers env response") auto
qed

lemma bufferPreset_first_image:
  assumes "resolveMedia env (image_in request) = Inr d"
    and "generateContent env (presetRequest p (t_model request) d) = Inr response"
    and "first_candidate_parts (candidates response) = Some ps"
    and "List.map_filter part_inlineData ps = i # others"
  shows "\<exists>rest tx. bufferPreset p l f env w request =
           (Inr \<lparr>images = BufferImage (fromBase64 env (data i)) (mimeType i) (data i) # rest,
                 a_text = tx, totalImages = Suc (length rest), a_type = Some l\<rparr>,
            dispatch (NonStreaming (presetRequest p (t_model request) d)) w)"
proof -
  obtain rest tx where "aggregateBuffers env response =
      (BufferImage (fromBase64 env (data i)) (mimeType i) (data i) # rest, tx)"
    using aggregateBuffers_first [OF assms(3,4)] by blast
  then show ?thesis
    using assms(1,2) by (simp add: bufferPreset_def Let_def)
qed

lemma firstImageResponse_buffer:
  "firstImageResponse filename
     \<lparr>images = BufferImage b m d # rest, a_text = tx, totalImages = n, a_type = t\<rparr> =
   \<lparr>status = None,
    headers = [(''Content-Type'', m),
               (''Content-Disposition'',
                ''attachment; filename='' @ [CHR 0x22] @ filename @ [CHR 0x22])],
    body = BufferBody b\<rparr>"
  by (simp add: firstImageResponse_def image_headers_def)

text \<open>A preset controller on a request whose image resolves and whose answer carries an
  image part: one non-streaming call, and the first image's bytes as the reply.\<close>

lemma presetController_first_image:
  assumes "resolveMedia env m = Inr d"
    and "generateContent env (presetRequest p None d) = Inr response"
    and "first_candidate_parts (candidates response) = Some ps"
    and "List.map_filter part_inlineData ps = i # others"
    and "reply = \<lparr>status = None,
                  headers = [(''Content-Type'', mimeType i),
                             (''Content-Disposition'',
                              ''attachment; filename='' @ [CHR 0x22] @ filename @ [CHR 0x22])],
                  body = BufferBody (fromBase64 env (data i))\<rparr>"
    and "w' = dispatch (NonStreaming (presetRequest p None d)) w"
  shows "(\<forall>f. m = FileObject f \<longrightarrow>
            presetController_post (bufferPreset p l e) filename env w f = (reply, w')) \<and>
         (\<forall>u. m = Url u \<and> u \<noteq> [] \<longrightarrow>
            presetController_get (bufferPreset p l e) filename env w (Some u) = (reply, w'))"
proof -
  obtain rest tx where
    "bufferPreset p l e env w \<lparr>image_in = m, t_model = None\<rparr> =
           (Inr \<lparr>images = BufferImage (fromBase64 env (data i)) (mimeType i) (data i) # rest,
                 a_text = tx, totalImages = Suc (length rest), a_type = Some l\<rparr>, w')"
    using bufferPreset_first_image [of env "\<lparr>image_in = m, t_model = None\<rparr>" d p
            response ps i others l e w]
          assms(1,2,3,4,6)
    by auto
  then show ?thesis
    by (auto simp: presetController_post_def presetController_get_def
          firstImageResponse_buffer assms(5))
qed

lemma aggregateBuffers_images:
  "fst (aggregateBuffers env response) =
     map (\<lambda>d. BufferImage (fromBase64 env (data d)) (mimeType d) (data d))
         (image_parts response)"
  by (simp add: aggregateBuffers_def first_candidate_parts_def image_parts_def bufferLoop_images
        split: option.split list.split)

lemma firstImageResponse_image_parts:
  "firstImageResponse filename
     \<lparr>images = map (\<lambda>d. BufferImage (fromBase64 env (data d)) (mimeType d) (data d)) ips,
      a_text = tx, totalImages = n, a_type = t\<rparr> =
   (case ips of
      [] \<Rightarrow> failure_response ''No image generated''
    | i # _ \<Rightarrow>
        \<lparr>status = None,
         headers = [(''Content-Type'', mimeType i),
                    (''Content-Disposition'',
                     ''attachment; filename='' @ [CHR 0x22] @ filename @ [CHR 0x22])],
         body = BufferBody (fromBase64 env (data i))\<rparr>)"
  by (cases ips) (simp_all add: firstImageResponse_def image_headers_def)

text \<open>What a preset does with resolved media: one non-streaming call, then the first image
  of the answer, or one of the two failure envelopes.\<close>

lemma bufferPreset_reply:
  assumes "resolveMedia env (image_in request) = Inr d"
  shows "(case bufferPreset p l e env w request of
            (Inl err, w') \<Rightarrow> (failure_response (error_message err), w')
          | (Inr result, w') \<Rightarrow> (firstImageResponse filename result, w')) =
         (case generateContent env (presetRequest p (t_model request) d) of
            Inl err \<Rightarrow> failure_response (e @ error_message err)
          | Inr response \<Rightarrow>
              (case image_parts response of
                 [] \<Rightarrow> failure_response ''No image generated''
               | i # _ \<Rightarrow>
                   \<lparr>status = None,
                    headers = [(''Content-Type'', mimeType i),
                               (''Content-Disposition'',
                                ''attachment; filename='' @ [CHR 0x22] @ filename @ [CHR 0x22])],
                    body = BufferBody (fromBase64 env (data i))\<rparr>),
          dispatch (NonStreaming (presetRequest p (t_model request) d)) w)"
proof (cases "generateContent env (presetRequest p (t_model request) d)")
  case (Inl err)
  then show ?thesis
    using assms by (simp add: bufferPreset_def Let_def)
next
  case (Inr response)
  obtain imgs tx where agg: "aggregateBuffers env response = (imgs, tx)"
    by (cases "aggregateBuffers env response")
  then have "imgs = map (\<lambda>d. BufferImage (fromBase64 env (data d)) (mimeType d) (data d))
                       (image_parts response)"
    using aggregateBuffers_images [of env response] by simp
  then show ?thesis
    using assms Inr agg
    by (simp add: bufferPreset_def Let_def firstImageResponse_image_parts)
qed

text \<open>Claim C1 fails when the model answers without an image: the request carries a valid
  image, one call is dispatched, and the reply is the failure envelope
  \<^verbatim>\<open>No image generated\<close>, not a buffer.\<close>

theorem hitam_without_image_counterexample:
  "hitamController_post ''darken'' silent_runtime example_world
       \<lparr>file_bytes = [137, 80, 78, 71], file_type = ''image/png''\<rparr> =
     (\<lparr>status = None, headers = [],
       body = JsonBody (Failure ''No image generated'')\<rparr>,
      example_world\<lparr>dispatched :=
        [NonStreaming \<lparr>g_model = image_model, g_config = imageConfig,
           g_contents = [\<lparr>role = ''user'',
             parts = [Text (Some ''darken''),
                      InlineData \<lparr>data = ''BAAA'', mimeType = ''image/png''\<rparr>]\<rparr>]\<rparr>]\<rparr>)"
  by (simp add: hitamController_post_def presetController_post_def generateHitam_def
        bufferPreset_def presetRequest_def resolveMedia_def aggregateBuffers_def
        first_candidate_parts_def firstImageResponse_def failure_response_def
        dispatch_def default_to_def Let_def
        silent_runtime_def example_runtime_def example_world_def)

text \<open>
  Claim C1, amended. A hitam request with a valid image (an upload, or a URL whose fetch
  answers \<^verbatim>\<open>ok\<close> with a readable body) resolves that image (its bytes encoded, with the
  declared type, or the content type of the fetch, or \<^verbatim>\<open>application/octet-stream\<close>),
  and dispatches exactly one non-streaming request whose single user turn holds the
  preset prompt followed by the image. The reply is the decoded bytes of the first image
  part of the answer, with its MIME type as content type, when the answer has one; the
  failure envelope \<^verbatim>\<open>No image generated\<close> when it has none; and a failure envelope with
  the cause when the call fails.
\<close>

theorem hitam_pipeline:
  assumes "u \<noteq> []" and "fetch env u = Resolves r" and "ok r"
    and "arrayBuffer r = Inr body_bytes"
    and "fetched =
           \<lparr>data = toBase64 env body_bytes,
            mimeType = (case content_type r of
                          None \<Rightarrow> ''application/octet-stream''
                        | Some t \<Rightarrow> if t = [] then ''application/octet-stream'' else t)\<rparr>"
    and "uploaded = \<lparr>data = toBase64 env (file_bytes f), mimeType = file_type f\<rparr>"
    and "greq = (\<lambda>d. \<lparr>g_model = image_model, g_config = imageConfig,
                        g_contents = [\<lparr>role = ''user'',
                                       parts = [Text (Some HITAM_PROMPT), InlineData d]\<rparr>]\<rparr>)"
    and "outcome = (\<lambda>d.
           (case generateContent env (greq d) of
              Inl err \<Rightarrow> failure_response (''Hitam generation failed: '' @ error_message err)
            | Inr response \<Rightarrow>
                (case image_parts response of
                   [] \<Rightarrow> failure_response ''No image generated''
                 | i # _ \<Rightarrow>
                     \<lparr>status = None,
                      headers = [(''Content-Type'', mimeType i),
                                 (''Content-Disposition'',
                                  ''attachment; filename='' @ [CHR 0x22] @ ''hitam.png'' @
                                    [CHR 0x22])],
                      body = BufferBody (fromBase64 env (data i))\<rparr>),
            w\<lparr>dispatched := dispatched w @ [NonStreaming (greq d)]\<rparr>))"
  shows "hitamController_post HITAM_PROMPT env w f = outcome uploaded \<and>
         hitamController_get HITAM_PROMPT env w (Some u) = outcome fetched"
proof -
  have request: "presetRequest HITAM_PROMPT None d = greq d" for d
    by (simp add: presetRequest_def default_to_def assms(7))
  have upload: "resolveMedia env (image_in \<lparr>image_in = FileObject f, t_model = None\<rparr>) =
      Inr uploaded"
    by (simp add: resolveMedia_def assms(6))
  have url: "resolveMedia env (image_in \<lparr>image_in = Url u, t_model = None\<rparr>) = Inr fetched"
    using assms(2,3,4)
    by (simp add: resolveMedia_def fetchFileFromUrl_def or_else_def assms(5) split: option.split)
  show ?thesis
    unfolding hitamController_post_def hitamController_get_def generateHitam_def
      presetController_post_def presetController_get_def
    using bufferPreset_reply [OF upload, where p = HITAM_PROMPT and l = "''hitam''"
            and e = "''Hitam generation failed: ''" and w = w and filename = "''hitam.png''"]
          bufferPreset_reply [OF url, where p = HITAM_PROMPT and l = "''hitam''"
            and e = "''Hitam generation failed: ''" and w = w and filename = "''hitam.png''"]
          assms(1)
    by (simp add: request assms(8) dispatch_def)
qed

theorem hitam_pipeline_witness:
  "hitamController_get ''darken'' example_runtime example_world
       (Some ''https://example.org/cat.png'') =
     (\<lparr>status = None,
       headers = [(''Content-Type'', ''image/png''),
                  (''Content-Disposition'',
                   ''attachment; filename='' @ [CHR 0x22] @ ''hitam.png'' @ [CHR 0x22])],
       body = BufferBody [1, 1, 1, 1]\<rparr>,
      example_world\<lparr>dispatched :=
        [NonStreaming \<lparr>g_model = image_model, g_config = imageConfig,
           g_contents = [\<lparr>role = ''user'',
             parts = [Text (Some ''darken''),
                      InlineData \<lparr>data = ''BAAA'', mimeType = ''image/png''\<rparr>]\<rparr>]\<rparr>]\<rparr>) \<and>
   hitamController_post ''darken'' example_runtime example_world
       \<lparr>file_bytes = [1, 2, 200], file_type = ''image/jpeg''\<rparr> =
     (\<lparr>status = None,
       headers = [(''Content-Type'', ''image/png''),
                  (''Content-Disposition'',
                   ''attachment; filename='' @ [CHR 0x22] @ ''hitam.png'' @ [CHR 0x22])],
       body = BufferBody [1, 1, 1, 1]\<rparr>,
      example_world\<lparr>dispatched :=
        [NonStreaming \<lparr>g_model = image_model, g_config = imageConfig,
           g_contents = [\<lparr>role = ''user'',
             parts = [Text (Some ''darken''),
                      InlineData \<lparr>data = ''AAB'', mimeType = ''image/jpeg''\<rparr>]\<rparr>]\<rparr>]\<rparr>)"
proof -
  have fetched: "fetch example_runtime ''https://example.org/cat.png'' =
      Resolves \<lparr>ok = True, statusText = ''OK'', content_type = Some ''image/png'',
                arrayBuffer = Inr [137, 80, 78, 71]\<rparr>"
    by (simp add: example_runtime_def)
  have images: "image_parts example_response =
      [\<lparr>data = ''QUJD'', mimeType = ''image/png''\<rparr>,
       \<lparr>data = ''REVG'', mimeType = ''image/jpeg''\<rparr>]"
    by (simp add: image_parts_def example_response_def)
  show ?thesis
    using hitam_pipeline [OF _ fetched _ _ refl refl refl refl,
            of "[137, 80, 78, 71]" "''darken''" example_world
               "\<lparr>file_bytes = [1, 2, 200], file_type = ''image/jpeg''\<rparr>"]
    by (simp add: images example_runtime_def example_world_def)
qed

subsection \<open>A response without content parts\<close>

lemma produced_nothing_parts:
  "produced_nothing response =
     (case first_candidate_parts (candidates response) of None \<Rightarrow> True | Some ps \<Rightarrow> ps = [])"
  by (simp add: produced_nothing_def first_candidate_parts_def split: option.split list.split)

lemma aggregateBuffers_nothing:
  "produced_nothing response \<Longrightarrow> aggregateBuffers env response = ([], [])"
  by (simp add: produced_nothing_parts aggregateBuffers_def split: option.splits)

lemma aggregateFiles_nothing:
  "produced_nothing response \<Longrightarrow> aggregateFiles env w response = (Inr ([], []), w)"
  by (simp add: produced_nothing_parts aggregateFiles_def split: option.splits)

lemma bufferPreset_nothing:
  assumes "produced_nothing response" and "\<forall>g. generateContent env g = Inr response"
    and "resolveMedia env (image_in request) = Inr d"
  shows "fst (bufferPreset p l f env w request) =
           Inr \<lparr>images = [], a_text = [], totalImages = 0, a_type = Some l\<rparr>"
  using assms by (simp add: bufferPreset_def Let_def aggregateBuffers_nothing)

lemma generateImage_nothing:
  assumes "produced_nothing response" and "\<forall>g. generateContent env g = Inr response"
  shows "fst (generateImage env w request) =
           Inr \<lparr>images = [], a_text = [], totalImages = 0, a_type = None\<rparr>"
  using assms by (simp add: generateImage_def generateImage_362_def Let_def aggregateFiles_nothing)

lemma presetController_post_nothing:
  assumes "produced_nothing response" and "\<forall>g. generateContent env g = Inr response"
  shows "fst (presetController_post (bufferPreset p l f) filename env w image_file) =
           failure_response ''No image generated''"
proof -
  have "resolveMedia env (image_in \<lparr>image_in = FileObject image_file, t_model = None\<rparr>) =
          Inr \<lparr>data = toBase64 env (file_bytes image_file), mimeType = file_type image_file\<rparr>"
    by (simp add: resolveMedia_def)
  from bufferPreset_nothing [OF assms this, of p l f w] show ?thesis
    by (auto simp: presetController_post_def firstImageResponse_def split: prod.splits sum.splits)
qed

lemma presetController_get_nothing:
  assumes "produced_nothing response" and "\<forall>g. generateContent env g = Inr response"
    and "u \<noteq> []" and "resolveMedia env (Url u) = Inr d"
  shows "fst (presetController_get (bufferPreset p l f) filename env w (Some u)) =
           failure_response ''No image generated''"
proof -
  have "resolveMedia env (image_in \<lparr>image_in = Url u, t_model = None\<rparr>) = Inr d"
    using assms(4) by simp
  from bufferPreset_nothing [OF assms(1,2) this, of p l f w] show ?thesis
    using assms(3)
    by (auto simp: presetController_get_def firstImageResponse_def split: prod.splits sum.splits)
qed

text \<open>The JSON-wrapping \<^verbatim>\<open>/image/generate\<close> endpoint reports an empty artifact as a
  success.\<close>

theorem empty_response_counterexample:
  "produced_nothing \<lparr>candidates = None, response_text = None\<rparr> \<and>
   generateContent silent_runtime (imageRequest \<lparr>i_model = None, prompt = Some ''a cat''\<rparr>) =
     Inr \<lparr>candidates = None, response_text = None\<rparr> \<and>
   fst (imageController silent_runtime example_world \<lparr>i_model = None, prompt = Some ''a cat''\<rparr>) =
     \<lparr>status = None, headers = [],
      body = JsonBody (ImageSuccess
               \<lparr>images = [], a_text = [], totalImages = 0, a_type = None\<rparr>)\<rparr> \<and>
   fst (imageController silent_runtime example_world \<lparr>i_model = None, prompt = Some ''a cat''\<rparr>) \<noteq>
     failure_response ''No image generated''"
  by (simp add: produced_nothing_def silent_runtime_def imageController_def generateImage_def
        generateImage_362_def aggregateFiles_def first_candidate_parts_def Let_def
        failure_response_def)

text \<open>
  Claim C6, amended. A non-streaming response with no candidates, or whose first candidate
  has no content parts, aggregates to empty text and no images without an error. The
  endpoints that return a buffer (figurine, hijab, sdmtinggi, hitam and the
  buffer-returning \<^verbatim>\<open>/image/generate\<close>) then answer with the failure envelope
  \<^verbatim>\<open>No image generated\<close>; the JSON-wrapping \<^verbatim>\<open>/image/generate\<close> answers with a success
  envelope around the empty artifact.
\<close>

theorem empty_response_outcome:
  assumes "produced_nothing response" and "\<forall>g. generateContent env g = Inr response"
  shows "aggregateBuffers env response = ([], []) \<and>
         aggregateFiles env w response = (Inr ([], []), w) \<and>
         fst (figurineController_post env w image_file) = failure_response ''No image generated'' \<and>
         fst (hijabController_post env w image_file) = failure_response ''No image generated'' \<and>
         fst (sdmtinggiController_post env w image_file) = failure_response ''No image generated'' \<and>
         fst (hitamController_post HITAM_PROMPT env w image_file) =
           failure_response ''No image generated'' \<and>
         (u \<noteq> [] \<and> (\<exists>d. resolveMedia env (Url u) = Inr d) \<longrightarrow>
            fst (figurineController_get env w (Some u)) = failure_response ''No image generated'' \<and>
            fst (hijabController_get env w (Some u)) = failure_response ''No image generated'' \<and>
            fst (sdmtinggiController_get env w (Some u)) = failure_response ''No image generated'' \<and>
            fst (hitamController_get HITAM_PROMPT env w (Some u)) =
              failure_response ''No image generated'') \<and>
         fst (imageController_buffer env w request) = failure_response ''No image generated'' \<and>
         fst (imageController env w request) =
           \<lparr>status = None, headers = [],
            body = JsonBody (ImageSuccess
                     \<lparr>images = [], a_text = [], totalImages = 0, a_type = None\<rparr>)\<rparr>"
proof -
  have image: "fst (generateImage env w request) =
      Inr \<lparr>images = [], a_text = [], totalImages = 0, a_type = None\<rparr>"
    by (rule generateImage_nothing [OF assms])
  have "fst (imageController_buffer env w request) = failure_response ''No image generated''"
    using image by (auto simp: imageController_buffer_def split: prod.splits sum.splits)
  moreover have "fst (imageController env w request) =
           \<lparr>status = None, headers = [],
            body = JsonBody (ImageSuccess
                     \<lparr>images = [], a_text = [], totalImages = 0, a_type = None\<rparr>)\<rparr>"
    using image by (auto simp: imageController_def split: prod.splits sum.splits)
  ultimately show ?thesis
    using assms
    by (auto simp: aggregateBuffers_nothing aggregateFiles_nothing
          figurineController_post_def hijabController_post_def sdmtinggiController_post_def
          hitamController_post_def figurineController_get_def hijabController_get_def
          sdmtinggiController_get_def hitamController_get_def
          generateFigurine_def generateHijab_def generateSdmTinggi_def generateHitam_def
          presetController_post_nothing presetController_get_nothing)
qed


theorem empty_response_outcome_witness:
  "produced_nothing \<lparr>candidates = None, response_text = None\<rparr> \<and>
   fst (sdmtinggiController_post silent_runtime example_world
          \<lparr>file_bytes = [1], file_type = ''image/png''\<rparr>) =
     failure_response ''No image generated'' \<and>
   fst (hitamController_get ''darken'' silent_runtime example_world
          (Some ''https://example.org/cat.png'')) =
     failure_response ''No image generated'' \<and>
   fst (imageController_buffer silent_runtime example_world
          \<lparr>i_model = None, prompt = Some ''a cat''\<rparr>) =
     failure_response ''No image generated''"
proof -
  have empty: "produced_nothing \<lparr>candidates = None, response_text = None\<rparr>"
    by (simp add: produced_nothing_def)
  have answer: "\<forall>g. generateContent silent_runtime g =
      Inr \<lparr>candidates = None, response_text = None\<rparr>"
    by (simp add: silent_runtime_def)
  have url: "\<exists>d. resolveMedia silent_runtime (Url ''https://example.org/cat.png'') = Inr d"
    by (simp add: resolveMedia_def fetchFileFromUrl_def silent_runtime_def example_runtime_def)
  show ?thesis
    using empty_response_outcome [OF empty answer, of example_world
            "\<lparr>file_bytes = [1], file_type = ''image/png''\<rparr>" "''darken''"
            "''https://example.org/cat.png''" "\<lparr>i_model = None, prompt = Some ''a cat''\<rparr>"]
          empty url
    by simp
qed

subsection \<open>Only the first image is returned\<close>

text \<open>The preset controllers answer from the first image alone.\<close>

lemma firstImageResponse_first_only:
  "firstImageResponse filename (result\<lparr>images := i # rest\<rparr>) =
   firstImageResponse filename (result\<lparr>images := [i]\<rparr>)"
  by (simp add: firstImageResponse_def)

text \<open>The bound \<^verbatim>\<open>generateImage\<close> (the second definition) returns entries of the shape
  \<^verbatim>\<open>{url, mimeType}\<close> only, so the buffer-returning \<^verbatim>\<open>/image/generate\<close> never finds a
  \<^verbatim>\<open>data\<close> property to decode.\<close>

lemma fileLoop_file_images:
  "list_all is_file_image imgs \<Longrightarrow>
   (case fst (fileLoop env w ps imgs tx) of
      Inl e \<Rightarrow> True
    | Inr (imgs', tx') \<Rightarrow> list_all is_file_image imgs')"
proof (induction ps arbitrary: w imgs tx)
  case Nil
  then show ?case by simp
next
  case (Cons p ps)
  show ?case
  proof (cases "part_inlineData p")
    case None
    then show ?thesis
      using Cons by (cases "part_text p") simp_all
  next
    case (Some d)
    show ?thesis
    proof (cases "saveImageToFile env w (data d) (mimeType d)")
      case (Pair r w1)
      show ?thesis
      proof (cases r)
        case (Inl e)
        then show ?thesis
          using Some Pair by simp
      next
        case (Inr imageUrl)
        have "list_all is_file_image (imgs @ [FileImage imageUrl (mimeType d)])"
          using Cons.prems by simp
        from Cons.IH [OF this] show ?thesis
          using Some Pair Inr by simp
      qed
    qed
  qed
qed

lemma generateImage_file_images:
  assumes "generateImage env w request = (Inr result, w')"
  shows "list_all is_file_image (images result)"
proof -
  obtain response where response:
    "generateContent env (imageRequest request) = Inr response"
    using assms
    by (auto simp: generateImage_def generateImage_362_def Let_def split: sum.splits)
  have "case fst (aggregateFiles env (dispatch (NonStreaming (imageRequest request)) w) response) of
          Inl e \<Rightarrow> True
        | Inr (imgs', tx') \<Rightarrow> list_all is_file_image imgs'"
    using fileLoop_file_images [of "[]"]
    by (simp add: aggregateFiles_def split: option.split)
  then show ?thesis
    using assms response
    by (auto simp: generateImage_def generateImage_362_def Let_def
             split: sum.splits prod.splits)
qed

lemma imageController_buffer_never_buffer:
  "body (fst (imageController_buffer env w request)) \<noteq> BufferBody b"
proof (cases "generateImage env w request")
  case (Pair r w')
  show ?thesis
  proof (cases r)
    case (Inl e)
    with Pair show ?thesis by (simp add: imageController_buffer_def)
  next
    case (Inr result)
    with Pair have files: "list_all is_file_image (images result)"
      by (auto dest: generateImage_file_images)
    show ?thesis
    proof (cases "images result")
      case Nil
      with Pair Inr show ?thesis
        by (simp add: imageController_buffer_def failure_response_def)
    next
      case (Cons i rest)
      with files obtain u m where "i = FileImage u m"
        by (cases i) auto
      with Pair Inr Cons show ?thesis
        by (simp add: imageController_buffer_def)
    qed
  qed
qed

text \<open>
  Claim C10 says that every buffer endpoint returns the first of the generated images as
  the response body. The four preset controllers do (\<open>presetController_first_image\<close>,
  \<open>firstImageResponse_first_only\<close>). The buffer-returning \<^verbatim>\<open>/image/generate\<close> does not: with
  two images generated, both are written to files, \<^verbatim>\<open>firstImage.data\<close> is undefined,
  \<^verbatim>\<open>Buffer.from\<close> throws, and the reply is a failure envelope with status 500.
\<close>

theorem image_generate_buffer_fails:
  "map_sum id images
     (fst (generateImage example_runtime example_world \<lparr>i_model = None, prompt = Some ''a cat''\<rparr>)) =
     Inr [FileImage ''/images/generated_1700000000000.png'' ''image/png'',
          FileImage ''/images/generated_1700000000001.jpeg'' ''image/jpeg''] \<and>
   fst (imageController_buffer example_runtime example_world
          \<lparr>i_model = None, prompt = Some ''a cat''\<rparr>) =
     \<lparr>status = Some 500,
      headers = [(''Content-Type'', ''image/png''),
                 (''Content-Disposition'',
                  ''attachment; filename='' @ [CHR 0x22] @ ''generated.png'' @ [CHR 0x22])],
      body = JsonBody (Failure (error_message (bufferFromUndefined example_runtime)))\<rparr>"
proof -
  have ts: "show_nat 1700000000000 = ''1700000000000''"
           "show_nat 1700000000001 = ''1700000000001''"
    by (simp_all add: show_nat.simps)
  have ext: "extension_of ''image/png'' = ''png''" "extension_of ''image/jpeg'' = ''jpeg''"
    by (simp_all add: extension_of_def)
  show ?thesis
    by (simp add: imageController_buffer_def generateImage_def generateImage_362_def
          aggregateFiles_def first_candidate_parts_def saveImageToFile_def Let_def
          imageRequest_def dispatch_def image_headers_def
          example_runtime_def example_response_def example_world_def ts ext)
qed

subsection \<open>The session registry\<close>

lemma saveImageToFile_sessions:
  "saveImageToFile env (w\<lparr>sessions := s\<rparr>) b m =
     apsnd (sessions_update (\<lambda>_. s)) (saveImageToFile env w b m)"
  by (simp add: saveImageToFile_def Let_def split: option.split)

lemma fileLoop_sessions:
  "fileLoop env (w\<lparr>sessions := s\<rparr>) ps imgs tx =
     apsnd (sessions_update (\<lambda>_. s)) (fileLoop env w ps imgs tx)"
proof (induction ps arbitrary: w imgs tx)
  case Nil
  show ?case by simp
next
  case (Cons p ps)
  show ?case
  proof (cases "part_inlineData p")
    case None
    then show ?thesis
      using Cons by (cases "part_text p") simp_all
  next
    case (Some d)
    show ?thesis
    proof (cases "saveImageToFile env w (data d) (mimeType d)")
      case (Pair r w1)
      then show ?thesis
        using Some Cons [of w1] by (cases r) (simp_all add: saveImageToFile_sessions)
    qed
  qed
qed

lemma dispatch_sessions:
  "dispatch c (w\<lparr>sessions := s\<rparr>) = (dispatch c w)\<lparr>sessions := s\<rparr>"
  by (simp add: dispatch_def)

lemma generateImage_sessions:
  "generateImage env (w\<lparr>sessions := s\<rparr>) request =
     apsnd (sessions_update (\<lambda>_. s)) (generateImage env w request)"
  by (simp add: generateImage_def generateImage_362_def aggregateFiles_def Let_def
        dispatch_sessions fileLoop_sessions
        split: sum.split option.split prod.split)

lemma bufferPreset_sessions:
  "bufferPreset p l f env (w\<lparr>sessions := s\<rparr>) request =
     apsnd (sessions_update (\<lambda>_. s)) (bufferPreset p l f env w request)"
  by (simp add: bufferPreset_def Let_def dispatch_sessions split: sum.split prod.split)

lemma generateChatResponse_sessions:
  "generateChatResponse env (w\<lparr>sessions := s\<rparr>) request =
     apsnd (sessions_update (\<lambda>_. s)) (generateChatResponse env w request)"
  by (simp add: generateChatResponse_def generateChatResponse_263_def Let_def dispatch_sessions
        split: sum.split)

lemma presetController_post_sessions:
  "presetController_post (bufferPreset p l f) filename env (w\<lparr>sessions := s\<rparr>) image_file =
     apsnd (sessions_update (\<lambda>_. s))
       (presetController_post (bufferPreset p l f) filename env w image_file)"
  by (simp add: presetController_post_def bufferPreset_sessions split: sum.split prod.split)

lemma presetController_get_sessions:
  "presetController_get (bufferPreset p l f) filename env (w\<lparr>sessions := s\<rparr>) imageUrl =
     apsnd (sessions_update (\<lambda>_. s))
       (presetController_get (bufferPreset p l f) filename env w imageUrl)"
  by (simp add: presetController_get_def bufferPreset_sessions
        split: sum.split prod.split option.split)

text \<open>Claim C9 fails for a session identifier that is the empty string: the reply carries
  \<^verbatim>\<open>null\<close>, not the identifier.\<close>

theorem session_echo_counterexample:
  "sessionId example_chat = Some [] \<and>
   fst (chatController example_runtime example_world example_chat) =
     \<lparr>status = None, headers = [],
      body = JsonBody (ChatSuccess
               \<lparr>r_text = ''pong'', r_chunks = None, r_sessionId = None,
                r_usedTools = False, r_usedThinking = False\<rparr>)\<rparr>"
  by (simp add: chatController_def generateChatResponse_def generateChatResponse_263_def
        resolveOptionalFile_def Let_def echo_session_def or_else_def default_to_def
        example_chat_def example_runtime_def example_response_def)

text \<open>
  Claim C9, amended. The reply of a chat request carries the request's session identifier
  when that is a non-empty string, and \<^verbatim>\<open>null\<close> when it is absent or empty. No handler
  reads or writes the session registry: run on a state with another registry, a handler
  gives the same reply and the same final state up to that registry, which it hands back
  as it got it.
\<close>

theorem session_is_dead_surface:
  "(\<forall>result w'. generateChatResponse env w request = (Inr result, w') \<longrightarrow>
      r_sessionId result = (if truthy (sessionId request) then sessionId request else None)) \<and>
   chatController env (w\<lparr>sessions := s\<rparr>) request =
     apsnd (sessions_update (\<lambda>_. s)) (chatController env w request) \<and>
   imageController env (w\<lparr>sessions := s\<rparr>) ireq =
     apsnd (sessions_update (\<lambda>_. s)) (imageController env w ireq) \<and>
   imageController_buffer env (w\<lparr>sessions := s\<rparr>) ireq =
     apsnd (sessions_update (\<lambda>_. s)) (imageController_buffer env w ireq) \<and>
   figurineController_post env (w\<lparr>sessions := s\<rparr>) image_file =
     apsnd (sessions_update (\<lambda>_. s)) (figurineController_post env w image_file) \<and>
   figurineController_get env (w\<lparr>sessions := s\<rparr>) imageUrl =
     apsnd (sessions_update (\<lambda>_. s)) (figurineController_get env w imageUrl) \<and>
   hijabController_post env (w\<lparr>sessions := s\<rparr>) image_file =
     apsnd (sessions_update (\<lambda>_. s)) (hijabController_post env w image_file) \<and>
   hijabController_get env (w\<lparr>sessions := s\<rparr>) imageUrl =
     apsnd (sessions_update (\<lambda>_. s)) (hijabController_get env w imageUrl) \<and>
   sdmtinggiController_post env (w\<lparr>sessions := s\<rparr>) image_file =
     apsnd (sessions_update (\<lambda>_. s)) (sdmtinggiController_post env w image_file) \<and>
   sdmtinggiController_get env (w\<lparr>sessions := s\<rparr>) imageUrl =
     apsnd (sessions_update (\<lambda>_. s)) (sdmtinggiController_get env w imageUrl) \<and>
   hitamController_post HITAM_PROMPT env (w\<lparr>sessions := s\<rparr>) image_file =
     apsnd (sessions_update (\<lambda>_. s)) (hitamController_post HITAM_PROMPT env w image_file) \<and>
   hitamController_get HITAM_PROMPT env (w\<lparr>sessions := s\<rparr>) imageUrl =
     apsnd (sessions_update (\<lambda>_. s)) (hitamController_get HITAM_PROMPT env w imageUrl)"
proof -
  have echo: "\<forall>result w'. generateChatResponse env w request = (Inr result, w') \<longrightarrow>
      r_sessionId result = (if truthy (sessionId request) then sessionId request else None)"
    by (auto simp: generateChatResponse_def generateChatResponse_263_def Let_def echo_session_def
             split: sum.splits)
  have chat: "chatController env (w\<lparr>sessions := s\<rparr>) request =
     apsnd (sessions_update (\<lambda>_. s)) (chatController env w request)"
    by (simp add: chatController_def generateChatResponse_sessions split: sum.split prod.split)
  have image: "imageController env (w\<lparr>sessions := s\<rparr>) ireq =
     apsnd (sessions_update (\<lambda>_. s)) (imageController env w ireq)"
    by (simp add: imageController_def generateImage_sessions split: sum.split prod.split)
  have buffer: "imageController_buffer env (w\<lparr>sessions := s\<rparr>) ireq =
     apsnd (sessions_update (\<lambda>_. s)) (imageController_buffer env w ireq)"
    by (simp add: imageController_buffer_def generateImage_sessions
          split: sum.split prod.split list.split option.split)
  show ?thesis
    using echo chat image buffer
    by (simp add: figurineController_post_def figurineController_get_def
          hijabController_post_def hijabController_get_def
          sdmtinggiController_post_def sdmtinggiController_get_def
          hitamController_post_def hitamController_get_def
          generateFigurine_def generateHijab_def generateSdmTinggi_def generateHitam_def
          presetController_post_sessions presetController_get_sessions)
qed


theorem session_is_dead_surface_witness:
  "generateChatResponse example_runtime example_world (example_chat\<lparr>sessionId := Some ''user123''\<rparr>) =
     (Inr \<lparr>r_text = ''pong'', r_chunks = None, r_sessionId = Some ''user123'',
           r_usedTools = False, r_usedThinking = False\<rparr>,
      dispatch (NonStreaming (chatRequest example_chat None)) example_world) \<and>
   sessions (snd (chatController example_runtime
                    (example_world\<lparr>sessions := [''user123'' \<mapsto> ''kept'']\<rparr>)
                    (example_chat\<lparr>sessionId := Some ''user123''\<rparr>))) =
     [''user123'' \<mapsto> ''kept'']"
proof -
  have run: "generateChatResponse example_runtime example_world
      (example_chat\<lparr>sessionId := Some ''user123''\<rparr>) =
     (Inr \<lparr>r_text = ''pong'', r_chunks = None, r_sessionId = Some ''user123'',
           r_usedTools = False, r_usedThinking = False\<rparr>,
      dispatch (NonStreaming (chatRequest example_chat None)) example_world)"
    by (simp add: generateChatResponse_def generateChatResponse_263_def
          resolveOptionalFile_def Let_def echo_session_def or_else_def default_to_def
          chatRequest_def example_chat_def example_runtime_def example_response_def)
  show ?thesis
    using session_is_dead_surface [of example_runtime example_world
            "example_chat\<lparr>sessionId := Some ''user123''\<rparr>" "[''user123'' \<mapsto> ''kept'']"]
          run
    by (simp add: example_chat_def)
qed

subsection \<open>Chat is not streamed\<close>

lemma generateChatResponse_bound:
  "generateChatResponse = generateChatResponse_263"
  by (simp add: generateChatResponse_def)

lemma generateChatResponse_run:
  assumes "resolveOptionalFile env (file request) = Inr resolved"
  shows "generateChatResponse env w request =
           (case generateContent env (chatRequest request resolved) of
              Inl e \<Rightarrow> Inl (Error (''Chat generation failed: '' @ error_message e))
            | Inr response \<Rightarrow>
                Inr \<lparr>r_text = or_else (response_text response) [],
                     r_chunks = None,
                     r_sessionId = echo_session (sessionId request),
                     r_usedTools = default_to False (useTools request),
                     r_usedThinking = default_to False (useThinking request)\<rparr>,
            dispatch (NonStreaming (chatRequest request resolved)) w)"
  using assms
  by (simp add: generateChatResponse_bound generateChatResponse_263_def Let_def split: sum.split)

text \<open>
  Claim C2 says that every chat request is served in streaming mode, the text being the
  concatenation of the chunks' text deltas; so do the first definition of
  \<^verbatim>\<open>generateChatResponse\<close> and the documentation of the chat routes. The class body
  defines the method a second time, and the call \<^verbatim>\<open>geminiService.generateChatResponse(...)\<close>
  reaches that second definition. On a model whose stream would deliver the chunks \<^verbatim>\<open>a\<close>
  and \<^verbatim>\<open>b\<close>, the one call made is non-streaming and the text is the response's
  \<^verbatim>\<open>pong\<close>; the first definition streams and returns \<^verbatim>\<open>ab\<close>.
\<close>

theorem chat_request_not_streamed:
  "dispatched (snd (generateChatResponse example_runtime example_world example_chat)) =
     [NonStreaming (chatRequest example_chat None)] \<and>
   map_sum id r_text (fst (generateChatResponse example_runtime example_world example_chat)) =
     Inr ''pong'' \<and>
   generateContentStream example_runtime (chatRequest example_chat None) =
     Inr ([\<lparr>chunk_candidates = None, chunk_text = Some ''a''\<rparr>,
           \<lparr>chunk_candidates = None, chunk_text = Some ''b''\<rparr>], None) \<and>
   dispatched (snd (generateChatResponse_65 example_runtime example_world example_chat)) =
     [Streaming (chatRequest example_chat None)] \<and>
   map_sum id r_text (fst (generateChatResponse_65 example_runtime example_world example_chat)) =
     Inr ''ab''"
  by (simp add: generateChatResponse_def generateChatResponse_263_def generateChatResponse_65_def
        resolveOptionalFile_def Let_def or_else_def dispatch_def
        example_chat_def example_runtime_def example_response_def example_world_def)

text \<open>The same on every request whose optional file resolves: one call, non-streaming, and
  the text of the single response.\<close>

lemma generateChatResponse_non_streaming:
  assumes "resolveOptionalFile env (file request) = Inr resolved"
  shows "dispatched (snd (generateChatResponse env w request)) =
           dispatched w @ [NonStreaming (chatRequest request resolved)] \<and>
         (\<forall>response. generateContent env (chatRequest request resolved) = Inr response \<longrightarrow>
            fst (generateChatResponse env w request) =
              Inr \<lparr>r_text = (case response_text response of None \<Rightarrow> [] | Some t \<Rightarrow> t),
                   r_chunks = None,
                   r_sessionId = echo_session (sessionId request),
                   r_usedTools = default_to False (useTools request),
                   r_usedThinking = default_to False (useThinking request)\<rparr>)"
  using assms
  by (simp add: generateChatResponse_run dispatch_def or_else_def split: option.split)

subsection \<open>Order of turns and parts\<close>

text \<open>Claim C7 fails for a system prompt that is the empty string: it is present in the
  request, and the request sent to the model has the user turn only.\<close>

theorem system_prompt_counterexample:
  "systemPrompt example_chat = Some [] \<and>
   dispatched (snd (generateChatResponse example_runtime example_world example_chat)) =
     [NonStreaming
        \<lparr>g_model = ''gemini-2.5-flash'',
         g_config = \<lparr>thinkingBudget = None, tools = None, responseModalities = None\<rparr>,
         g_contents = [\<lparr>role = ''user'', parts = [Text (Some ''hi'')]\<rparr>]\<rparr>]"
  by (simp add: generateChatResponse_def generateChatResponse_263_def
        resolveOptionalFile_def Let_def dispatch_def chatRequest_def chatContents_def
        chatConfig_def default_to_def config_models_chat_def
        example_chat_def example_runtime_def example_world_def)

text \<open>
  Claim C7, amended. In the request a chat call sends, a non-empty system prompt is the
  first of two turns and the user turn the second; without one (absent or empty) the user
  turn is the only turn. The user turn starts with the text part, followed by the media
  part if media was resolved; when no file is supplied it is the text part alone. The
  presets send one turn with the prompt text before the image, and image generation one
  turn with the prompt text only.
\<close>

theorem content_ordering:
  assumes "resolveOptionalFile env (file request) = Inr resolved"
    and "cs = g_contents (chatRequest request resolved)"
  shows "dispatched (snd (generateChatResponse env w request)) =
           dispatched w @ [NonStreaming (chatRequest request resolved)] \<and>
         (truthy (systemPrompt request) \<longrightarrow>
            cs = [\<lparr>role = ''user'', parts = [Text (systemPrompt request)]\<rparr>, last cs]) \<and>
         (\<not> truthy (systemPrompt request) \<longrightarrow> cs = [last cs]) \<and>
         parts (last cs) =
           Text (Some (message request)) #
             (case resolved of None \<Rightarrow> [] | Some d \<Rightarrow> [InlineData d]) \<and>
         (file request = None \<longrightarrow> parts (last cs) = [Text (Some (message request))]) \<and>
         g_contents (presetRequest promptText m d) =
           [\<lparr>role = ''user'', parts = [Text (Some promptText), InlineData d]\<rparr>] \<and>
         g_contents (imageRequest ireq) = [\<lparr>role = ''user'', parts = [Text (prompt ireq)]\<rparr>]"
proof -
  have "dispatched (snd (generateChatResponse env w request)) =
           dispatched w @ [NonStreaming (chatRequest request resolved)]"
    using assms(1) by (simp add: generateChatResponse_run dispatch_def)
  moreover have "file request = None \<longrightarrow> resolved = None"
    using assms(1) by (auto simp: resolveOptionalFile_def)
  ultimately show ?thesis
    using assms(2)
    by (auto simp: chatRequest_def chatContents_def presetRequest_def imageRequest_def)
qed

theorem content_ordering_witness:
  "g_contents (chatRequest
      (example_chat\<lparr>systemPrompt := Some ''Be brief'',
                     file := Some (Url ''https://example.org/cat.png'')\<rparr>)
      (Some \<lparr>data = ''BAAA'', mimeType = ''image/png''\<rparr>)) =
     [\<lparr>role = ''user'', parts = [Text (Some ''Be brief'')]\<rparr>,
      \<lparr>role = ''user'',
       parts = [Text (Some ''hi''), InlineData \<lparr>data = ''BAAA'', mimeType = ''image/png''\<rparr>]\<rparr>] \<and>
   g_contents (chatRequest example_chat None) =
     [\<lparr>role = ''user'', parts = [Text (Some ''hi'')]\<rparr>]"
proof -
  let ?request = "example_chat\<lparr>systemPrompt := Some ''Be brief'',
                     file := Some (Url ''https://example.org/cat.png'')\<rparr>"
  let ?d = "\<lparr>data = ''BAAA'', mimeType = ''image/png''\<rparr>"
  have with_file: "resolveOptionalFile example_runtime (file ?request) = Inr (Some ?d)"
    by (simp add: resolveOptionalFile_def resolveMedia_def fetchFileFromUrl_def or_else_def
          example_runtime_def example_chat_def)
  have without: "resolveOptionalFile example_runtime (file example_chat) = Inr None"
    by (simp add: resolveOptionalFile_def example_chat_def)
  show ?thesis
    using content_ordering [OF with_file refl, of example_world]
          content_ordering [OF without refl, of example_world]
    by (simp add: example_chat_def chatRequest_def chatContents_def)
qed

end
